theory Spec2Isabelle
  imports Complex_Main
begin

section \<open>The bird cursor system of \<^verbatim>\<open>src/bird-cursor.js\<close>\<close>

text \<open>
  The class \<^verbatim>\<open>BirdCursorSystem\<close> is embedded with explicit state passing: every method
  takes the object (and the part of the browser it touches) and returns the updated one.

  Numbers. JavaScript numbers are IEEE doubles. The embedding idealises every finite
  double as a \<^typ>\<open>real\<close> and does not model rounding, so a statement proved here is
  the exact version of a fact that holds for the program up to floating-point error.
  What the embedding does keep of IEEE arithmetic is division by zero, where HOL and
  JavaScript differ (\<open>x / 0 = 0\<close> in HOL; \<open>\<plusminus>Infinity\<close> or \<open>NaN\<close> in
  JavaScript): every division of the source is guarded in the model, and a step whose
  result would hold a \<open>NaN\<close> returns \<open>None\<close>.
\<close>

subsection \<open>Data model\<close>

text \<open>The object literals \<^verbatim>\<open>{ x: 0, y: 0 }\<close> (lines 12-15).\<close>

record vector2 =
  vec_x :: real
  vec_y :: real

text \<open>
  \<^verbatim>\<open>this.config\<close> (lines 18-25): the six tunables, and \<open>extra\<close> for any further
  numeric property that \<^verbatim>\<open>Object.assign\<close> may have added to the object.
\<close>

record config =
  springStrength :: real
  dampening :: real
  maxSpeed :: real
  accelerationRate :: real
  flappingThreshold :: real
  baseScale :: real
  extra :: "string \<rightharpoonup> real"

text \<open>\<^verbatim>\<open>this.animationState\<close> (lines 28-35).\<close>

record animationState =
  isFlapping :: bool
  flapIntensity :: real
  direction :: real
  rotation :: real
  pitchRotation :: real
  scale :: real

text \<open>
  A number written into a style string. A non-finite one (the text \<^verbatim>\<open>Infinity\<close>,
  \<^verbatim>\<open>-Infinity\<close> or \<^verbatim>\<open>NaN\<close>) is \<open>NonFinite\<close>.
\<close>

datatype css_number = Finite real | NonFinite

text \<open>
  The two DOM elements the class holds. Of \<^verbatim>\<open>#birdCursor\<close> the program writes
  \<^verbatim>\<open>style.left\<close>, \<^verbatim>\<open>style.top\<close>, \<^verbatim>\<open>style.transform\<close> and
  \<^verbatim>\<open>style.animationDuration\<close>; of \<^verbatim>\<open>.bird-container\<close> the class list and
  \<^verbatim>\<open>style.transform\<close>, whose four numbers are kept as a record instead of the
  formatted text. \<open>None\<close> is a style property that was never set.
\<close>

record container_transform =
  t_scaleX :: real
  t_rotate :: real
  t_rotateX :: real
  t_scale :: real

record bird_element =
  style_left :: "real option"
  style_top :: "real option"
  style_transform :: "string option"
  style_animationDuration :: "css_number option"

record container_element =
  classList :: "string list"
  container_style_transform :: "container_transform option"

text \<open>
  The browser as far as the class uses it: the calls to \<^verbatim>\<open>console\<close>, the pending
  \<^verbatim>\<open>setTimeout\<close> callbacks of \<^verbatim>\<open>updateFlapping\<close> (each with the time it is due at
  and the velocity its closure captured), a clock in milliseconds, the number of
  \<^verbatim>\<open>mousemove\<close> listeners on the document, and the frame callback that
  \<^verbatim>\<open>requestAnimationFrame\<close> holds.
\<close>

datatype log_level = Log | Warn | Error

record timeout =
  due :: nat
  captured_velocity :: real

record host =
  console :: "(log_level \<times> string) list"
  timeouts :: "timeout list"
  clock :: nat
  mousemove_listeners :: nat
  pending_frame :: "nat option"
  next_frame_id :: nat

text \<open>
  The fields of the object (lines 8-39). An element the object refers to is kept with its
  state in the field: the program is the only writer of these elements in the model.
  \<open>None\<close> is \<^verbatim>\<open>null\<close> or \<^verbatim>\<open>undefined\<close>.
\<close>

record bird_cursor_system =
  birdElement :: "bird_element option"
  containerElement :: "container_element option"
  position :: vector2
  velocity :: vector2
  acceleration :: vector2
  target :: vector2
  config :: config
  animationState :: animationState
  animationFrame :: "nat option"
  isInitialized :: bool
  browser :: host

subsection \<open>Flapping (lines 193-206)\<close>

text \<open>
  The body of the arrow function given to \<^verbatim>\<open>setTimeout\<close> (lines 199-204). It sees the
  parameter \<^verbatim>\<open>velocity\<close> of the call that scheduled it, and reads
  \<^verbatim>\<open>this.config.flappingThreshold\<close> when it runs.
\<close>

definition flapping_timeout :: "real \<Rightarrow> bird_cursor_system \<Rightarrow> bird_cursor_system" where
  "flapping_timeout v s =
     (if v \<le> flappingThreshold (config s)
      then s\<lparr>animationState := (animationState s)\<lparr>isFlapping := False, flapIntensity := 1\<rparr>\<rparr>
      else s)"

text \<open>
  \<^verbatim>\<open>setTimeout(callback, delay)\<close>: the callback joins the pending ones, due \<open>delay\<close>
  milliseconds from now. The program keeps no handle of it.
\<close>

definition setTimeout :: "real \<Rightarrow> nat \<Rightarrow> host \<Rightarrow> host" where
  "setTimeout v delay h =
     h\<lparr>timeouts := timeouts h @ [\<lparr>due = clock h + delay, captured_velocity = v\<rparr>]\<rparr>"

text \<open>
  \<^verbatim>\<open>Math.min(1.5, velocity / this.config.flappingThreshold)\<close> in the branch
  \<^verbatim>\<open>velocity > this.config.flappingThreshold\<close>: when the threshold is zero the
  velocity is positive, the quotient is \<^verbatim>\<open>Infinity\<close> and the minimum is 1.5.
\<close>

definition flap_intensity :: "real \<Rightarrow> real \<Rightarrow> real" where
  "flap_intensity v threshold = (if threshold = 0 then 1.5 else min 1.5 (v / threshold))"

definition updateFlapping :: "real \<Rightarrow> bird_cursor_system \<Rightarrow> bird_cursor_system" where
  "updateFlapping v s =
     (if v > flappingThreshold (config s)
      then s\<lparr>animationState := (animationState s)
             \<lparr>isFlapping := True,
              flapIntensity := flap_intensity v (flappingThreshold (config s))\<rparr>\<rparr>
      else s\<lparr>browser := setTimeout v 150 (browser s)\<rparr>)"

subsection \<open>The physics step (lines 145-188)\<close>

text \<open>\<^verbatim>\<open>Math.sqrt(v.x ** 2 + v.y ** 2)\<close> (lines 163 and 175).\<close>

definition magnitude :: "vector2 \<Rightarrow> real" where
  "magnitude v = sqrt ((vec_x v)\<^sup>2 + (vec_y v)\<^sup>2)"

text \<open>Lines 147-152: the acceleration moves a tenth of the way to the spring pull.\<close>

definition smoothed_acceleration :: "bird_cursor_system \<Rightarrow> vector2" where
  "smoothed_acceleration s =
     (let dx = vec_x (target s) - vec_x (position s);
          dy = vec_y (target s) - vec_y (position s)
      in \<lparr>vec_x = vec_x (acceleration s)
                    + (dx * accelerationRate (config s) - vec_x (acceleration s)) * 0.1,
          vec_y = vec_y (acceleration s)
                    + (dy * accelerationRate (config s) - vec_y (acceleration s)) * 0.1\<rparr>)"

text \<open>Lines 155-160: the velocity gains the new acceleration and is dampened.\<close>

definition damped_velocity :: "bird_cursor_system \<Rightarrow> vector2" where
  "damped_velocity s =
     (let a = smoothed_acceleration s
      in \<lparr>vec_x = (vec_x (velocity s) + vec_x a * springStrength (config s)) * dampening (config s),
          vec_y = (vec_y (velocity s) + vec_y a * springStrength (config s)) * dampening (config s)\<rparr>)"

text \<open>
  Lines 163-168. The quotient \<^verbatim>\<open>this.config.maxSpeed / currentSpeed\<close> is taken only when
  \<^verbatim>\<open>currentSpeed > this.config.maxSpeed\<close>. A zero \<^verbatim>\<open>currentSpeed\<close> there means a
  negative \<^verbatim>\<open>maxSpeed\<close>: the scale is \<^verbatim>\<open>-Infinity\<close>, and both components of the
  velocity, which are zero, become \<^verbatim>\<open>NaN\<close>. The model returns \<open>None\<close> then.
\<close>

definition limit_speed :: "real \<Rightarrow> vector2 \<Rightarrow> vector2 option" where
  "limit_speed limit v =
     (let currentSpeed = magnitude v
      in if currentSpeed > limit
         then (if currentSpeed = 0 then None
               else (let k = limit / currentSpeed
                     in Some \<lparr>vec_x = vec_x v * k, vec_y = vec_y v * k\<rparr>))
         else Some v)"

definition updatePhysics :: "bird_cursor_system \<Rightarrow> bird_cursor_system option" where
  "updatePhysics s =
     (case limit_speed (maxSpeed (config s)) (damped_velocity s) of
        None \<Rightarrow> None
      | Some v \<Rightarrow>
          (let p = \<lparr>vec_x = vec_x (position s) + vec_x v, vec_y = vec_y (position s) + vec_y v\<rparr>;
               velocityMagnitude = magnitude v;
               d = (if \<bar>vec_x v\<bar> > 0.1 then (if vec_x v > 0 then 1 else - 1)
                    else direction (animationState s));
               s1 = s\<lparr>acceleration := smoothed_acceleration s, velocity := v, position := p,
                      animationState := (animationState s)\<lparr>direction := d\<rparr>\<rparr>;
               s2 = updateFlapping velocityMagnitude s1;
               dynamicScale = max 0.9 (1 - velocityMagnitude * 0.001)
           in Some (s2\<lparr>animationState := (animationState s2)
                         \<lparr>scale := baseScale (config s2) * dynamicScale\<rparr>\<rparr>)))"

subsection \<open>The object as constructed, and its tables (lines 7-87)\<close>

definition default_config :: config where
  "default_config =
     \<lparr>springStrength = 0.12, dampening = 0.85, maxSpeed = 15, accelerationRate = 0.2,
      flappingThreshold = 1.5, baseScale = 0.45, extra = Map.empty\<rparr>"

text \<open>
  An object literal with numeric properties, as \<^verbatim>\<open>updatePhysicsConfig\<close> receives one
  and as the presets are: the own enumerable properties by name.
\<close>

type_synonym partial_config = "string \<rightharpoonup> real"

definition presets :: "string \<rightharpoonup> partial_config" where
  "presets = map_of
     [(''energetic'', map_of
         [(''springStrength'', 0.18), (''dampening'', 0.8), (''maxSpeed'', 20),
          (''accelerationRate'', 0.3), (''flappingThreshold'', 1.0), (''baseScale'', 0.5)]),
      (''gentle'', map_of
         [(''springStrength'', 0.08), (''dampening'', 0.9), (''maxSpeed'', 10),
          (''accelerationRate'', 0.15), (''flappingThreshold'', 2.0), (''baseScale'', 0.4)]),
      (''balanced'', map_of
         [(''springStrength'', 0.12), (''dampening'', 0.85), (''maxSpeed'', 15),
          (''accelerationRate'', 0.2), (''flappingThreshold'', 1.5), (''baseScale'', 0.45)])]"

text \<open>The keys of \<^verbatim>\<open>this.themes\<close>, in the order of the literal (lines 42-58).\<close>

definition theme_names :: "string list" where
  "theme_names = [''robin'', ''bluebird'', ''cardinal'']"

text \<open>
  \<^verbatim>\<open>this.presets[name]\<close> and \<^verbatim>\<open>this.themes[name]\<close> are property reads on plain
  objects, so a name that \<^verbatim>\<open>Object.prototype\<close> defines reads as an inherited value,
  which is truthy and has no enumerable property of its own.
\<close>

definition object_prototype_names :: "string list" where
  "object_prototype_names =
     [''constructor'', ''hasOwnProperty'', ''isPrototypeOf'', ''propertyIsEnumerable'',
      ''toLocaleString'', ''toString'', ''valueOf'', ''__proto__'', ''__defineGetter__'',
      ''__defineSetter__'', ''__lookupGetter__'', ''__lookupSetter__'']"

definition new_BirdCursorSystem :: "host \<Rightarrow> bird_cursor_system" where
  "new_BirdCursorSystem h =
     \<lparr>birdElement = None, containerElement = None,
      position = \<lparr>vec_x = 0, vec_y = 0\<rparr>, velocity = \<lparr>vec_x = 0, vec_y = 0\<rparr>,
      acceleration = \<lparr>vec_x = 0, vec_y = 0\<rparr>, target = \<lparr>vec_x = 0, vec_y = 0\<rparr>,
      config = default_config,
      animationState = \<lparr>isFlapping = False, flapIntensity = 1, direction = 1, rotation = 0,
                        pitchRotation = 0, scale = baseScale default_config\<rparr>,
      animationFrame = None, isInitialized = False, browser = h\<rparr>"

subsection \<open>Configuration (lines 250-257 and 283-292)\<close>

definition config_fields :: "string list" where
  "config_fields = [''springStrength'', ''dampening'', ''maxSpeed'', ''accelerationRate'',
                    ''flappingThreshold'', ''baseScale'']"

text \<open>The property of the config object with a given name, \<open>None\<close> when it has none.\<close>

definition get_property :: "config \<Rightarrow> string \<rightharpoonup> real" where
  "get_property c k =
     (if k = ''springStrength'' then Some (springStrength c)
      else if k = ''dampening'' then Some (dampening c)
      else if k = ''maxSpeed'' then Some (maxSpeed c)
      else if k = ''accelerationRate'' then Some (accelerationRate c)
      else if k = ''flappingThreshold'' then Some (flappingThreshold c)
      else if k = ''baseScale'' then Some (baseScale c)
      else extra c k)"

text \<open>\<^verbatim>\<open>Object.assign(this.config, source)\<close>: every own property of the source is copied.\<close>

definition Object_assign :: "config \<Rightarrow> partial_config \<Rightarrow> config" where
  "Object_assign c src =
     \<lparr>springStrength = (case src ''springStrength'' of Some v \<Rightarrow> v | None \<Rightarrow> springStrength c),
      dampening = (case src ''dampening'' of Some v \<Rightarrow> v | None \<Rightarrow> dampening c),
      maxSpeed = (case src ''maxSpeed'' of Some v \<Rightarrow> v | None \<Rightarrow> maxSpeed c),
      accelerationRate =
        (case src ''accelerationRate'' of Some v \<Rightarrow> v | None \<Rightarrow> accelerationRate c),
      flappingThreshold =
        (case src ''flappingThreshold'' of Some v \<Rightarrow> v | None \<Rightarrow> flappingThreshold c),
      baseScale = (case src ''baseScale'' of Some v \<Rightarrow> v | None \<Rightarrow> baseScale c),
      extra = extra c ++ (src |` (- set config_fields))\<rparr>"

definition console_call :: "log_level \<Rightarrow> string \<Rightarrow> bird_cursor_system \<Rightarrow> bird_cursor_system" where
  "console_call lvl msg s = s\<lparr>browser := (browser s)\<lparr>console := console (browser s) @ [(lvl, msg)]\<rparr>\<rparr>"

text \<open>
  Line 251 tests \<^verbatim>\<open>this.presets[presetName]\<close>. A preset passes and is merged; so does
  an inherited name, for which \<^verbatim>\<open>Object.assign\<close> finds nothing to copy.
\<close>

definition setPreset :: "string \<Rightarrow> bird_cursor_system \<Rightarrow> bird_cursor_system" where
  "setPreset presetName s =
     (case presets presetName of
        Some p \<Rightarrow>
          console_call Log (''Applied preset: '' @ presetName)
            (s\<lparr>config := Object_assign (config s) p\<rparr>)
      | None \<Rightarrow>
          if presetName \<in> set object_prototype_names
          then console_call Log (''Applied preset: '' @ presetName) s
          else console_call Warn (''Preset '' @ [CHR 0x27] @ presetName @ [CHR 0x27] @ '' not found'') s)"

definition updatePhysicsConfig :: "partial_config \<Rightarrow> bird_cursor_system \<Rightarrow> bird_cursor_system" where
  "updatePhysicsConfig newConfig s = s\<lparr>config := Object_assign (config s) newConfig\<rparr>"

definition getConfig :: "bird_cursor_system \<Rightarrow> config" where
  "getConfig s = config s"

subsection \<open>Themes (lines 262-278)\<close>

text \<open>\<^verbatim>\<open>classList.add\<close> and \<^verbatim>\<open>classList.remove\<close>: the class list has no duplicates.\<close>

definition classList_add :: "string \<Rightarrow> container_element \<Rightarrow> container_element" where
  "classList_add c e = (if c \<in> set (classList e) then e else e\<lparr>classList := classList e @ [c]\<rparr>)"

definition classList_remove :: "string \<Rightarrow> container_element \<Rightarrow> container_element" where
  "classList_remove c e = e\<lparr>classList := removeAll c (classList e)\<rparr>"

text \<open>
  The theme classes are removed first (lines 268-270), then the name is looked up (line
  272). The gradients of a theme are never read.
\<close>

definition setTheme :: "string \<Rightarrow> bird_cursor_system \<Rightarrow> bird_cursor_system" where
  "setTheme themeName s =
     (case containerElement s of
        None \<Rightarrow> s
      | Some e \<Rightarrow>
          (let e1 = fold classList_remove theme_names e
           in if themeName \<in> set theme_names \<or> themeName \<in> set object_prototype_names
              then console_call Log (''Applied theme: '' @ themeName)
                     (s\<lparr>containerElement := Some (classList_add themeName e1)\<rparr>)
              else console_call Warn (''Theme '' @ [CHR 0x27] @ themeName @ [CHR 0x27] @ '' not found'')
                     (s\<lparr>containerElement := Some e1\<rparr>)))"

subsection \<open>Rendering (lines 211-245)\<close>

text \<open>
  \<^verbatim>\<open>updateAnimation\<close> reads \<^verbatim>\<open>this.containerElement.classList\<close> without a check: on
  a missing container it throws, which is \<open>None\<close> here. The quotient
  \<^verbatim>\<open>0.8 / flapIntensity\<close> is not finite when the intensity is zero.
\<close>

definition updateAnimation :: "bird_cursor_system \<Rightarrow> bird_cursor_system option" where
  "updateAnimation s =
     (case containerElement s of
        None \<Rightarrow> None
      | Some e \<Rightarrow>
          if isFlapping (animationState s)
          then (case birdElement s of
                  None \<Rightarrow> None
                | Some b \<Rightarrow>
                    Some (s\<lparr>containerElement := Some (classList_add ''flapping'' e),
                            birdElement := Some (b\<lparr>style_animationDuration :=
                              Some (if flapIntensity (animationState s) = 0 then NonFinite
                                    else Finite (0.8 / flapIntensity (animationState s)))\<rparr>)\<rparr>))
          else Some (s\<lparr>containerElement := Some (classList_remove ''flapping'' e)\<rparr>))"

definition render :: "bird_cursor_system \<Rightarrow> bird_cursor_system" where
  "render s =
     (case (birdElement s, containerElement s) of
        (Some b, Some e) \<Rightarrow>
          s\<lparr>birdElement := Some (b\<lparr>style_left := Some (vec_x (position s)),
                                    style_top := Some (vec_y (position s)),
                                    style_transform := Some ''translate(-50%, -50%)''\<rparr>),
            containerElement := Some (e\<lparr>container_style_transform :=
              Some \<lparr>t_scaleX = direction (animationState s),
                    t_rotate = rotation (animationState s),
                    t_rotateX = pitchRotation (animationState s),
                    t_scale = scale (animationState s)\<rparr>\<rparr>)\<rparr>
      | _ \<Rightarrow> s)"

subsection \<open>Life cycle (lines 92-140 and 297-304)\<close>

text \<open>
  The methods are those of the class. The script also creates one global instance and
  gives it slider handlers (lines 308-342), one of them under the name
  \<^verbatim>\<open>updatePhysics\<close>; they are not part of the class and are not modelled.
\<close>

text \<open>
  What \<^verbatim>\<open>init\<close> finds in the page: the element with id \<^verbatim>\<open>birdCursor\<close>, its
  descendant of class \<^verbatim>\<open>bird-container\<close>, and the size of the window.
\<close>

record page =
  doc_birdCursor :: "bird_element option"
  doc_bird_container :: "container_element option"
  innerWidth :: real
  innerHeight :: real

text \<open>
  How a frame can fail to return a state: the physics step has produced a \<^verbatim>\<open>NaN\<close>
  (with which the program carries on, outside this model), or \<^verbatim>\<open>updateAnimation\<close> has
  thrown.
\<close>

datatype failure = NotANumber | TypeError

definition setupEventListeners :: "page \<Rightarrow> bird_cursor_system \<Rightarrow> bird_cursor_system" where
  "setupEventListeners d s =
     (let c = \<lparr>vec_x = innerWidth d / 2, vec_y = innerHeight d / 2\<rparr>
      in s\<lparr>browser := (browser s)\<lparr>mousemove_listeners := Suc (mousemove_listeners (browser s))\<rparr>,
           position := c, target := c\<rparr>)"

text \<open>The listener of line 116, run on a \<^verbatim>\<open>mousemove\<close> event when it is registered.\<close>

definition mousemove :: "real \<Rightarrow> real \<Rightarrow> bird_cursor_system \<Rightarrow> bird_cursor_system" where
  "mousemove clientX clientY s =
     (if mousemove_listeners (browser s) = 0 then s
      else s\<lparr>target := \<lparr>vec_x = clientX, vec_y = clientY\<rparr>\<rparr>)"

text \<open>\<^verbatim>\<open>requestAnimationFrame\<close> hands out a fresh non-zero handle.\<close>

definition requestAnimationFrame :: "host \<Rightarrow> nat \<times> host" where
  "requestAnimationFrame h =
     (Suc (next_frame_id h),
      h\<lparr>pending_frame := Some (Suc (next_frame_id h)), next_frame_id := Suc (next_frame_id h)\<rparr>)"

definition cancelAnimationFrame :: "nat \<Rightarrow> host \<Rightarrow> host" where
  "cancelAnimationFrame i h = (if pending_frame h = Some i then h\<lparr>pending_frame := None\<rparr> else h)"

text \<open>One run of the closure \<^verbatim>\<open>animate\<close> (lines 132-137).\<close>

definition animate :: "bird_cursor_system \<Rightarrow> failure + bird_cursor_system" where
  "animate s =
     (case updatePhysics s of
        None \<Rightarrow> Inl NotANumber
      | Some s1 \<Rightarrow>
          (case updateAnimation s1 of
             None \<Rightarrow> Inl TypeError
           | Some s2 \<Rightarrow>
               (let s3 = render s2; (i, h) = requestAnimationFrame (browser s3)
                in Inr (s3\<lparr>animationFrame := Some i, browser := h\<rparr>))))"

definition startAnimation :: "bird_cursor_system \<Rightarrow> failure + bird_cursor_system" where
  "startAnimation s = animate s"

definition init :: "page \<Rightarrow> bird_cursor_system \<Rightarrow> failure + bird_cursor_system" where
  "init d s =
     (if isInitialized s then Inr s
      else
        (let s1 = s\<lparr>birdElement := doc_birdCursor d,
                    containerElement :=
                      (case doc_birdCursor d of None \<Rightarrow> None | Some b \<Rightarrow> doc_bird_container d)\<rparr>
         in if birdElement s1 = None \<or> containerElement s1 = None
            then Inr (console_call Error ''Bird cursor elements not found'' s1)
            else (case startAnimation (setupEventListeners d s1) of
                    Inl f \<Rightarrow> Inl f
                  | Inr s2 \<Rightarrow>
                      Inr (console_call Log ''Bird cursor system initialized''
                             (s2\<lparr>isInitialized := True\<rparr>)))))"

definition destroy :: "bird_cursor_system \<Rightarrow> bird_cursor_system" where
  "destroy s =
     (let h = (case animationFrame s of
                 None \<Rightarrow> browser s
               | Some i \<Rightarrow> if i = 0 then browser s else cancelAnimationFrame i (browser s))
      in console_call Log ''Bird cursor system destroyed'' (s\<lparr>browser := h, isInitialized := False\<rparr>))"

subsection \<open>The browser's side: timers and frames\<close>

text \<open>
  The browser runs a pending timeout once the clock has reached the time it is due at, the
  earlier scheduled first, and removes it from the pending ones.
\<close>

definition run_due_timeouts :: "bird_cursor_system \<Rightarrow> bird_cursor_system" where
  "run_due_timeouts s =
     (let now = clock (browser s);
          ready = filter (\<lambda>t. due t \<le> now) (timeouts (browser s));
          later = filter (\<lambda>t. \<not> due t \<le> now) (timeouts (browser s))
      in fold (\<lambda>t. flapping_timeout (captured_velocity t)) ready
           (s\<lparr>browser := (browser s)\<lparr>timeouts := later\<rparr>\<rparr>))"

definition advance_clock :: "nat \<Rightarrow> bird_cursor_system \<Rightarrow> bird_cursor_system" where
  "advance_clock ms s = run_due_timeouts (s\<lparr>browser := (browser s)\<lparr>clock := clock (browser s) + ms\<rparr>\<rparr>)"

text \<open>The browser runs the frame callback it holds, if any.\<close>

definition run_frame :: "bird_cursor_system \<Rightarrow> failure + bird_cursor_system" where
  "run_frame s =
     (case pending_frame (browser s) of
        None \<Rightarrow> Inr s
      | Some i \<Rightarrow> animate (s\<lparr>browser := (browser s)\<lparr>pending_frame := None\<rparr>\<rparr>))"


subsection \<open>Notions of the claims, and states to evaluate them at\<close>


text \<open>A browser in which nothing has happened yet.\<close>

definition idle_browser :: host where
  "idle_browser = \<lparr>console = [], timeouts = [], clock = 0, mousemove_listeners = 0,
                    pending_frame = None, next_frame_id = 0\<rparr>"



definition negative_limit_rest :: bird_cursor_system where
  "negative_limit_rest =
     (new_BirdCursorSystem idle_browser)\<lparr>config := default_config\<lparr>maxSpeed := - 1\<rparr>\<rparr>"

text \<open>A fresh object at rest whose bird faces left.\<close>

definition facing_left_rest :: bird_cursor_system where
  "facing_left_rest =
     (let s = new_BirdCursorSystem idle_browser
      in s\<lparr>animationState := (animationState s)\<lparr>direction := - 1\<rparr>\<rparr>)"

text \<open>
  An initialised object whose container carries the class of the theme \<^verbatim>\<open>robin\<close>, as
  \<^verbatim>\<open>setTheme('robin')\<close> leaves it.
\<close>

definition themed_state :: bird_cursor_system where
  "themed_state =
     (new_BirdCursorSystem idle_browser)
       \<lparr>birdElement := Some \<lparr>style_left = None, style_top = None, style_transform = None,
                              style_animationDuration = None\<rparr>,
        containerElement := Some \<lparr>classList = [''bird-container'', ''robin''],
                                   container_style_transform = None\<rparr>\<rparr>"

text \<open>A page without the element \<^verbatim>\<open>#birdCursor\<close>.\<close>

definition empty_page :: page where
  "empty_page = \<lparr>doc_birdCursor = None, doc_bird_container = None,
                  innerWidth = 1280, innerHeight = 720\<rparr>"

text \<open>A fresh object whose bird is flapping.\<close>

definition flapping_state :: bird_cursor_system where
  "flapping_state =
     (let s = new_BirdCursorSystem idle_browser
      in s\<lparr>animationState := (animationState s)\<lparr>isFlapping := True, flapIntensity := 1.2\<rparr>\<rparr>)"




subsection \<open>Basic facts of the physics step\<close>

lemma magnitude_nonneg: "0 \<le> magnitude v"
  by (simp add: magnitude_def)

lemma magnitude_x_only: "magnitude \<lparr>vec_x = a, vec_y = 0\<rparr> = \<bar>a\<bar>"
  by (simp add: magnitude_def)


lemma limit_speed_below: "magnitude v \<le> limit \<Longrightarrow> limit_speed limit v = Some v"
  by (simp add: limit_speed_def)


lemma limit_speed_nan: "limit_speed limit v = None \<longleftrightarrow> limit < 0 \<and> magnitude v = 0"
  by (simp add: limit_speed_def Let_def)

lemma updatePhysics_Some:
  assumes "limit_speed (maxSpeed (config s)) (damped_velocity s) = Some v"
  shows "\<exists>s'. updatePhysics s = Some s' \<and> velocity s' = v
            \<and> acceleration s' = smoothed_acceleration s
            \<and> position s' = \<lparr>vec_x = vec_x (position s) + vec_x v,
                              vec_y = vec_y (position s) + vec_y v\<rparr>
            \<and> target s' = target s \<and> config s' = config s
            \<and> direction (animationState s') =
                 (if \<bar>vec_x v\<bar> > 0.1 then (if vec_x v > 0 then 1 else - 1)
                  else direction (animationState s))"
  using assms by (simp add: updatePhysics_def Let_def updateFlapping_def)

lemma updatePhysics_SomeD:
  assumes "updatePhysics s = Some s'"
  shows "limit_speed (maxSpeed (config s)) (damped_velocity s) = Some (velocity s')"
    and "acceleration s' = smoothed_acceleration s"
    and "position s' = \<lparr>vec_x = vec_x (position s) + vec_x (velocity s'),
                        vec_y = vec_y (position s) + vec_y (velocity s')\<rparr>"
    and "target s' = target s" and "config s' = config s"
    and "direction (animationState s') =
                 (if \<bar>vec_x (velocity s')\<bar> > 0.1 then (if vec_x (velocity s') > 0 then 1 else - 1)
                  else direction (animationState s))"
proof -
  from assms obtain v where v: "limit_speed (maxSpeed (config s)) (damped_velocity s) = Some v"
    by (auto simp: updatePhysics_def split: option.splits)
  from updatePhysics_Some [OF v] assms v
  show "limit_speed (maxSpeed (config s)) (damped_velocity s) = Some (velocity s')"
    and "acceleration s' = smoothed_acceleration s"
    and "position s' = \<lparr>vec_x = vec_x (position s) + vec_x (velocity s'),
                        vec_y = vec_y (position s) + vec_y (velocity s')\<rparr>"
    and "target s' = target s" and "config s' = config s"
    and "direction (animationState s') =
                 (if \<bar>vec_x (velocity s')\<bar> > 0.1 then (if vec_x (velocity s') > 0 then 1 else - 1)
                  else direction (animationState s))"
    by auto
qed


lemma magnitude_zero: "magnitude \<lparr>vec_x = 0, vec_y = 0\<rparr> = 0"
  by (simp add: magnitude_def)

lemma updatePhysics_total:
  assumes "0 \<le> maxSpeed (config s)"
  shows "\<exists>s'. updatePhysics s = Some s'"
proof -
  from assms have "limit_speed (maxSpeed (config s)) (damped_velocity s) \<noteq> None"
    by (simp add: limit_speed_nan)
  then obtain v where "limit_speed (maxSpeed (config s)) (damped_velocity s) = Some v"
    by blast
  from updatePhysics_Some [OF this] show ?thesis by blast
qed

subsection \<open>The claims on the physics step\<close>

text \<open>
  Claim C2. With the default config, position \<open>(0, 0)\<close>, target \<open>(100, 0)\<close> and zero
  velocity and acceleration, one physics step gives
  \<open>acceleration.x = 0.1 * (100 * 0.2) = 2\<close>, \<open>velocity.x = 2 * 0.12 * 0.85 = 0.204\<close>
  and \<open>position.x = 0.204\<close>, whatever the other fields of the object hold. Over the
  reals the values are exact.
\<close>

theorem first_tick_scenario:
  fixes s :: bird_cursor_system
  defines "s0 \<equiv> s\<lparr>config := default_config, position := \<lparr>vec_x = 0, vec_y = 0\<rparr>,
         target := \<lparr>vec_x = 100, vec_y = 0\<rparr>, velocity := \<lparr>vec_x = 0, vec_y = 0\<rparr>,
         acceleration := \<lparr>vec_x = 0, vec_y = 0\<rparr>\<rparr>"
  shows "map_option acceleration (updatePhysics s0) = Some \<lparr>vec_x = 0.1 * (100 * 0.2), vec_y = 0\<rparr>
       \<and> map_option acceleration (updatePhysics s0) = Some \<lparr>vec_x = 2.0, vec_y = 0\<rparr>
       \<and> map_option velocity (updatePhysics s0) = Some \<lparr>vec_x = 2.0 * 0.12 * 0.85, vec_y = 0\<rparr>
       \<and> map_option velocity (updatePhysics s0) = Some \<lparr>vec_x = 0.204, vec_y = 0\<rparr>
       \<and> map_option position (updatePhysics s0) = Some \<lparr>vec_x = 0.204, vec_y = 0\<rparr>"
proof -
  have a: "smoothed_acceleration s0 = \<lparr>vec_x = 2, vec_y = 0\<rparr>"
    by (simp add: s0_def smoothed_acceleration_def default_config_def)
  have v: "damped_velocity s0 = \<lparr>vec_x = 0.204, vec_y = 0\<rparr>"
    by (simp add: damped_velocity_def a) (simp add: s0_def default_config_def)
  have "magnitude (damped_velocity s0) \<le> maxSpeed (config s0)"
    unfolding v magnitude_x_only by (simp add: s0_def default_config_def)
  then have "limit_speed (maxSpeed (config s0)) (damped_velocity s0) = Some \<lparr>vec_x = 0.204, vec_y = 0\<rparr>"
    using v by (simp add: limit_speed_below)
  from updatePhysics_Some [OF this] obtain s' where
    "updatePhysics s0 = Some s'" "velocity s' = \<lparr>vec_x = 0.204, vec_y = 0\<rparr>"
    "acceleration s' = smoothed_acceleration s0"
    "position s' = \<lparr>vec_x = vec_x (position s0) + vec_x \<lparr>vec_x = 0.204, vec_y = 0\<rparr>,
                    vec_y = vec_y (position s0) + vec_y \<lparr>vec_x = 0.204::real, vec_y = 0\<rparr>\<rparr>"
    by blast
  moreover have "position s0 = \<lparr>vec_x = 0, vec_y = 0\<rparr>" by (simp add: s0_def)
  ultimately show ?thesis by (simp add: a)
qed






text \<open>
  Claim C10, amended. For every config whose \<^verbatim>\<open>maxSpeed\<close> is not negative: when the
  position is the target and velocity and acceleration are zero, a physics step leaves
  position, velocity and acceleration as they are.
\<close>

theorem rest_is_fixed_point:
  assumes "0 \<le> maxSpeed (config s)" and "position s = target s"
    and "velocity s = \<lparr>vec_x = 0, vec_y = 0\<rparr>" and "acceleration s = \<lparr>vec_x = 0, vec_y = 0\<rparr>"
  shows "\<exists>s'. updatePhysics s = Some s' \<and> position s' = position s
            \<and> velocity s' = velocity s \<and> acceleration s' = acceleration s"
proof -
  have a: "smoothed_acceleration s = \<lparr>vec_x = 0, vec_y = 0\<rparr>"
    using assms by (simp add: smoothed_acceleration_def)
  have d: "damped_velocity s = \<lparr>vec_x = 0, vec_y = 0\<rparr>"
    using assms by (simp add: damped_velocity_def a)
  have "limit_speed (maxSpeed (config s)) (damped_velocity s) = Some \<lparr>vec_x = 0, vec_y = 0\<rparr>"
    unfolding d using assms(1) by (simp add: limit_speed_below magnitude_zero)
  from updatePhysics_Some [OF this] show ?thesis
    using assms a by auto
qed

text \<open>The theorem at the object as constructed.\<close>

theorem rest_is_fixed_point_witness:
  "0 \<le> maxSpeed (config (new_BirdCursorSystem idle_browser))
   \<and> position (new_BirdCursorSystem idle_browser) = target (new_BirdCursorSystem idle_browser)
   \<and> (\<exists>s'. updatePhysics (new_BirdCursorSystem idle_browser) = Some s'
          \<and> position s' = \<lparr>vec_x = 0, vec_y = 0\<rparr> \<and> velocity s' = \<lparr>vec_x = 0, vec_y = 0\<rparr>
          \<and> acceleration s' = \<lparr>vec_x = 0, vec_y = 0\<rparr>)"
  using rest_is_fixed_point [of "new_BirdCursorSystem idle_browser"]
  by (simp add: new_BirdCursorSystem_def default_config_def)

text \<open>
  Claim C10 as stated, for every config, fails for a negative \<^verbatim>\<open>maxSpeed\<close>: at rest
  the speed 0 is above the limit, the scale \<^verbatim>\<open>maxSpeed / 0\<close> is \<^verbatim>\<open>-Infinity\<close>, and
  velocity and position become \<^verbatim>\<open>NaN\<close>, which the model returns as \<open>None\<close>.
\<close>

theorem rest_is_fixed_point_counterexample:
  "position negative_limit_rest = target negative_limit_rest
   \<and> velocity negative_limit_rest = \<lparr>vec_x = 0, vec_y = 0\<rparr>
   \<and> acceleration negative_limit_rest = \<lparr>vec_x = 0, vec_y = 0\<rparr>
   \<and> updatePhysics negative_limit_rest = None"
proof -
  have "damped_velocity negative_limit_rest = \<lparr>vec_x = 0, vec_y = 0\<rparr>"
    by (simp add: damped_velocity_def smoothed_acceleration_def negative_limit_rest_def
        new_BirdCursorSystem_def)
  then have "limit_speed (maxSpeed (config negative_limit_rest)) (damped_velocity negative_limit_rest) = None"
    by (simp add: limit_speed_nan magnitude_zero negative_limit_rest_def)
  then show ?thesis
    by (simp add: updatePhysics_def) (simp add: negative_limit_rest_def new_BirdCursorSystem_def)
qed

subsection \<open>The claims on flapping\<close>

text \<open>
  Claim C4. For every velocity magnitude above \<^verbatim>\<open>flappingThreshold\<close>, the call of
  \<^verbatim>\<open>updateFlapping\<close> itself sets \<^verbatim>\<open>isFlapping\<close> and sets \<^verbatim>\<open>flapIntensity\<close>
  to \<^verbatim>\<open>Math.min(1.5, velocity / flappingThreshold)\<close>, and schedules nothing. For a
  zero threshold the quotient is \<^verbatim>\<open>Infinity\<close> in JavaScript and the minimum is 1.5;
  that case is written out, since HOL's quotient by zero is 0.
\<close>

theorem flap_on_is_immediate:
  assumes "v > flappingThreshold (config s)"
  shows "isFlapping (animationState (updateFlapping v s))
       \<and> flapIntensity (animationState (updateFlapping v s)) =
           (if flappingThreshold (config s) = 0 then 1.5
            else min 1.5 (v / flappingThreshold (config s)))
       \<and> timeouts (browser (updateFlapping v s)) = timeouts (browser s)"
  using assms by (simp add: updateFlapping_def flap_intensity_def)

text \<open>The theorem at the object as constructed and the magnitude 1.6, above the threshold 1.5.\<close>

theorem flap_on_is_immediate_witness:
  "(1.6::real) > flappingThreshold (config (new_BirdCursorSystem idle_browser))
   \<and> \<not> isFlapping (animationState (new_BirdCursorSystem idle_browser))
   \<and> isFlapping (animationState (updateFlapping 1.6 (new_BirdCursorSystem idle_browser)))
   \<and> flapIntensity (animationState (updateFlapping 1.6 (new_BirdCursorSystem idle_browser))) = 16 / 15"
  using flap_on_is_immediate [of "new_BirdCursorSystem idle_browser" "1.6"]
  by (simp add: new_BirdCursorSystem_def default_config_def)

text \<open>
  Claim C6. In a physics step, with \<^verbatim>\<open>velocity.x\<close> the value the step has just
  computed (the one line 178 tests): inside the dead zone \<open>(-0.1, 0.1)\<close> the direction
  keeps its prior value; the direction changes only when \<open>\<bar>velocity.x\<bar> > 0.1\<close>; and
  then it is the sign of \<^verbatim>\<open>velocity.x\<close>.
\<close>

theorem direction_dead_zone:
  assumes "updatePhysics s = Some s'"
  shows "(- 0.1 < vec_x (velocity s') \<and> vec_x (velocity s') < 0.1 \<longrightarrow>
            direction (animationState s') = direction (animationState s))
       \<and> (direction (animationState s') \<noteq> direction (animationState s) \<longrightarrow>
            \<bar>vec_x (velocity s')\<bar> > 0.1)
       \<and> (\<bar>vec_x (velocity s')\<bar> > 0.1 \<longrightarrow>
            direction (animationState s') = sgn (vec_x (velocity s')))"
  using updatePhysics_SomeD(6) [OF assms] by (auto simp: sgn_if)

text \<open>The theorem at a bird at rest that faces left: it still faces left after the step.\<close>

theorem direction_dead_zone_witness:
  "\<exists>s'. updatePhysics facing_left_rest = Some s'
        \<and> vec_x (velocity s') = 0
        \<and> direction (animationState facing_left_rest) = - 1
        \<and> direction (animationState s') = - 1"
proof -
  have "0 \<le> maxSpeed (config facing_left_rest)" "position facing_left_rest = target facing_left_rest"
    "velocity facing_left_rest = \<lparr>vec_x = 0, vec_y = 0\<rparr>" "acceleration facing_left_rest = \<lparr>vec_x = 0, vec_y = 0\<rparr>"
    by (simp_all add: facing_left_rest_def new_BirdCursorSystem_def default_config_def Let_def)
  then have d: "damped_velocity facing_left_rest = \<lparr>vec_x = 0, vec_y = 0\<rparr>"
    by (simp add: damped_velocity_def smoothed_acceleration_def)
  have "limit_speed (maxSpeed (config facing_left_rest)) (damped_velocity facing_left_rest) = Some \<lparr>vec_x = 0, vec_y = 0\<rparr>"
    unfolding d using \<open>0 \<le> maxSpeed (config facing_left_rest)\<close> by (simp add: limit_speed_below magnitude_zero)
  from updatePhysics_Some [OF this] obtain s' where
    s': "updatePhysics facing_left_rest = Some s'" "velocity s' = \<lparr>vec_x = 0, vec_y = 0\<rparr>"
    by blast
  have "direction (animationState facing_left_rest) = - 1"
    by (simp add: facing_left_rest_def Let_def)
  with direction_dead_zone [OF s'(1)] s' show ?thesis by simp
qed

subsection \<open>The claims on the configuration, the themes and the life cycle\<close>

lemma get_property_Object_assign:
  "get_property (Object_assign c src) k = (case src k of Some v \<Rightarrow> Some v | None \<Rightarrow> get_property c k)"
  by (simp add: get_property_def Object_assign_def config_fields_def map_add_def restrict_map_def
      split: option.splits)

lemma Object_assign_maxSpeed: "Object_assign c [''maxSpeed'' \<mapsto> v] = c\<lparr>maxSpeed := v\<rparr>"
  by (rule config.equality)
    (simp_all add: Object_assign_def config_fields_def restrict_map_def map_add_def fun_eq_iff)

lemma config_setPreset:
  "config (setPreset presetName s) =
     (case presets presetName of Some p \<Rightarrow> Object_assign (config s) p | None \<Rightarrow> config s)"
  by (simp add: setPreset_def console_call_def split: option.splits)

text \<open>
  Claim C7. Config updates are partial merges. After \<^verbatim>\<open>updatePhysicsConfig(newConfig)\<close>
  every property of the config that the update names has the update's value and every
  other property has its prior value; \<^verbatim>\<open>updatePhysicsConfig({maxSpeed: 20})\<close>
  changes \<^verbatim>\<open>maxSpeed\<close> and nothing else; and \<^verbatim>\<open>setPreset\<close> does the same with the
  properties the preset names (and changes no property for a name that is no preset).
\<close>

theorem config_updates_are_partial_merges:
  "get_property (config (updatePhysicsConfig newConfig s)) k =
     (case newConfig k of Some v \<Rightarrow> Some v | None \<Rightarrow> get_property (config s) k)
   \<and> config (updatePhysicsConfig [''maxSpeed'' \<mapsto> 20] s) = (config s)\<lparr>maxSpeed := 20\<rparr>
   \<and> get_property (config (setPreset presetName s)) k =
       (case presets presetName of
          None \<Rightarrow> get_property (config s) k
        | Some preset \<Rightarrow> (case preset k of Some v \<Rightarrow> Some v | None \<Rightarrow> get_property (config s) k))"
  by (simp add: updatePhysicsConfig_def get_property_Object_assign Object_assign_maxSpeed
      config_setPreset split: option.splits)

text \<open>
  The theorem at the object as constructed: the update \<^verbatim>\<open>{maxSpeed: 20}\<close> sets
  \<^verbatim>\<open>maxSpeed\<close> and keeps \<^verbatim>\<open>dampening\<close>; an update may also name a new property.
\<close>

theorem config_updates_are_partial_merges_witness:
  "get_property (config (updatePhysicsConfig [''maxSpeed'' \<mapsto> 20] (new_BirdCursorSystem idle_browser)))
     ''maxSpeed'' = Some 20
   \<and> get_property (config (updatePhysicsConfig [''maxSpeed'' \<mapsto> 20] (new_BirdCursorSystem idle_browser)))
     ''dampening'' = Some 0.85
   \<and> get_property (config (updatePhysicsConfig [''wingSpan'' \<mapsto> 3] (new_BirdCursorSystem idle_browser)))
     ''wingSpan'' = Some 3"
proof -
  have "get_property (config (new_BirdCursorSystem idle_browser)) ''dampening'' = Some 0.85"
    by (simp add: get_property_def new_BirdCursorSystem_def default_config_def)
  with config_updates_are_partial_merges
         [of "[''maxSpeed'' \<mapsto> 20]" "new_BirdCursorSystem idle_browser" "''maxSpeed''"]
       config_updates_are_partial_merges
         [of "[''maxSpeed'' \<mapsto> 20]" "new_BirdCursorSystem idle_browser" "''dampening''"]
       config_updates_are_partial_merges
         [of "[''wingSpan'' \<mapsto> 3]" "new_BirdCursorSystem idle_browser" "''wingSpan''"]
  show ?thesis by simp
qed

text \<open>What \<^verbatim>\<open>setTheme\<close> does with a name that is no theme, when the container is there.\<close>

lemma fold_classList_remove:
  "classList (fold classList_remove names e) = filter (\<lambda>c. c \<notin> set names) (classList e)"
proof (induction names arbitrary: e)
  case Nil
  then show ?case by simp
next
  case (Cons n names)
  have "filter (\<lambda>c. c \<notin> set names) (removeAll n (classList e))
          = filter (\<lambda>c. c \<notin> set (n # names)) (classList e)"
    by (auto simp: removeAll_filter_not_eq intro: filter_cong)
  with Cons show ?case by (simp add: classList_remove_def)
qed

lemma setTheme_unknown:
  assumes "containerElement s = Some e"
    and "themeName \<notin> set theme_names" and "themeName \<notin> set object_prototype_names"
  shows "\<exists>e'. containerElement (setTheme themeName s) = Some e'
           \<and> classList e' = filter (\<lambda>c. c \<notin> set theme_names) (classList e)"
  using assms by (simp add: setTheme_def Let_def console_call_def fold_classList_remove)

text \<open>
  Claim C8 says that \<^verbatim>\<open>setTheme\<close> with an unknown name warns and leaves the selected
  theme applied. The code removes the theme classes (lines 268-270) before it looks the
  name up (line 272): on the container with the class \<^verbatim>\<open>robin\<close>,
  \<^verbatim>\<open>setTheme('parrot')\<close> warns and leaves no theme class. The sibling
  \<^verbatim>\<open>setPreset\<close> looks the name up first and changes nothing for an unknown one.
\<close>

theorem setTheme_unknown_removes_theme:
  "''parrot'' \<notin> set theme_names
   \<and> map_option classList (containerElement themed_state) = Some [''bird-container'', ''robin'']
   \<and> map_option classList (containerElement (setTheme ''parrot'' themed_state))
       = Some [''bird-container'']
   \<and> console (browser (setTheme ''parrot'' themed_state))
       = [(Warn, ''Theme '' @ [CHR 0x27] @ ''parrot'' @ [CHR 0x27] @ '' not found'')]"
  by (simp add: setTheme_def themed_state_def theme_names_def object_prototype_names_def
      new_BirdCursorSystem_def idle_browser_def console_call_def classList_remove_def)

text \<open>
  Claim C9, amended. If \<^verbatim>\<open>init\<close> fails because a required element is absent, it
  returns with the object not initialised; position, velocity, acceleration, target,
  config, animation state and frame handle are as before, and the browser has only gained the
  error on the console. From there \<^verbatim>\<open>setTheme\<close> and \<^verbatim>\<open>render\<close> do nothing and
  \<^verbatim>\<open>getConfig\<close> returns the prior config. \<^verbatim>\<open>updatePhysicsConfig\<close> and
  \<^verbatim>\<open>setPreset\<close> do not look at \<^verbatim>\<open>isInitialized\<close>: they merge into the config as
  they always do.
\<close>

theorem failed_init_gates_nothing_but_rendering:
  assumes "\<not> isInitialized s" and "doc_birdCursor d = None \<or> doc_bird_container d = None"
  shows "\<exists>s1. init d s = Inr s1 \<and> \<not> isInitialized s1 \<and> containerElement s1 = None
           \<and> position s1 = position s \<and> velocity s1 = velocity s
           \<and> acceleration s1 = acceleration s \<and> target s1 = target s
           \<and> config s1 = config s \<and> animationState s1 = animationState s
           \<and> animationFrame s1 = animationFrame s
           \<and> browser s1 = (browser s)\<lparr>console := console (browser s)
                               @ [(Error, ''Bird cursor elements not found'')]\<rparr>
           \<and> (\<forall>themeName. setTheme themeName s1 = s1)
           \<and> render s1 = s1
           \<and> getConfig s1 = config s
           \<and> (\<forall>newConfig. updatePhysicsConfig newConfig s1
                  = s1\<lparr>config := Object_assign (config s) newConfig\<rparr>)
           \<and> (\<forall>presetName. config (setPreset presetName s1) =
                  (case presets presetName of
                     Some p \<Rightarrow> Object_assign (config s) p | None \<Rightarrow> config s))"
  using assms
  by (auto simp: init_def Let_def console_call_def setTheme_def render_def getConfig_def
      updatePhysicsConfig_def config_setPreset split: option.splits)

text \<open>The theorem at a fresh object on a page without the bird element.\<close>

theorem failed_init_witness:
  "\<not> isInitialized (new_BirdCursorSystem idle_browser)
   \<and> doc_birdCursor empty_page = None
   \<and> (\<exists>s1. init empty_page (new_BirdCursorSystem idle_browser) = Inr s1
          \<and> \<not> isInitialized s1 \<and> setTheme ''robin'' s1 = s1 \<and> config s1 = default_config)"
proof -
  have a: "\<not> isInitialized (new_BirdCursorSystem idle_browser)"
    by (simp add: new_BirdCursorSystem_def)
  have b: "doc_birdCursor empty_page = None \<or> doc_bird_container empty_page = None"
    by (simp add: empty_page_def)
  have c: "config (new_BirdCursorSystem idle_browser) = default_config"
    by (simp add: new_BirdCursorSystem_def)
  from failed_init_gates_nothing_but_rendering [OF a b] obtain s1 where
    "init empty_page (new_BirdCursorSystem idle_browser) = Inr s1" "\<not> isInitialized s1"
    "\<forall>themeName. setTheme themeName s1 = s1" "config s1 = config (new_BirdCursorSystem idle_browser)"
    by blast
  with a c show ?thesis by (auto simp: empty_page_def)
qed

text \<open>
  Claim C9 as stated fails: after the failed \<^verbatim>\<open>init\<close> on the empty page,
  \<^verbatim>\<open>setPreset('energetic')\<close> and \<^verbatim>\<open>updatePhysicsConfig({maxSpeed: 20})\<close> both
  change \<^verbatim>\<open>maxSpeed\<close> from 15 to 20.
\<close>

theorem failed_init_counterexample:
  "(case init empty_page (new_BirdCursorSystem idle_browser) of
      Inl f \<Rightarrow> False
    | Inr s1 \<Rightarrow> \<not> isInitialized s1
               \<and> maxSpeed (config s1) = 15
               \<and> maxSpeed (config (setPreset ''energetic'' s1)) = 20
               \<and> maxSpeed (config (updatePhysicsConfig [''maxSpeed'' \<mapsto> 20] s1)) = 20)"
  by (simp add: init_def empty_page_def new_BirdCursorSystem_def default_config_def Let_def
      console_call_def config_setPreset presets_def updatePhysicsConfig_def Object_assign_def)

subsection \<open>The delayed end of flapping\<close>

lemma flapping_timeout_frame:
  "config (flapping_timeout v s) = config s" "browser (flapping_timeout v s) = browser s"
  by (simp_all add: flapping_timeout_def)

lemma fold_flapping_timeout_frame:
  "config (fold (\<lambda>t. flapping_timeout (captured_velocity t)) ts s) = config s
   \<and> browser (fold (\<lambda>t. flapping_timeout (captured_velocity t)) ts s) = browser s"
  by (induction ts arbitrary: s) (simp_all add: flapping_timeout_frame)

lemma updateFlapping_below:
  "v \<le> flappingThreshold (config s) \<Longrightarrow>
     updateFlapping v s = s\<lparr>browser := setTimeout v 150 (browser s)\<rparr>"
  by (simp add: updateFlapping_def)

lemma updateFlapping_keeps_timeouts:
  "\<exists>ts. timeouts (browser (updateFlapping v s)) = timeouts (browser s) @ ts"
  by (simp add: updateFlapping_def setTimeout_def)

lemma updatePhysics_keeps_timeouts:
  assumes "updatePhysics s = Some s'"
  shows "\<exists>ts. timeouts (browser s') = timeouts (browser s) @ ts"
  using assms
  by (auto simp: updatePhysics_def Let_def updateFlapping_def setTimeout_def
      split: option.splits if_splits)

lemma due_check_fires:
  assumes "v \<le> flappingThreshold (config s)" and "150 \<le> ms"
  shows "\<not> isFlapping (animationState (advance_clock ms (updateFlapping v s)))"
    and "flapIntensity (animationState (advance_clock ms (updateFlapping v s))) = 1"
    and "\<lparr>due = clock (browser s) + 150, captured_velocity = v\<rparr>
           \<notin> set (timeouts (browser (advance_clock ms (updateFlapping v s))))"
proof -
  let ?ours = "\<lparr>due = clock (browser s) + 150, captured_velocity = v\<rparr>"
  let ?now = "clock (browser s) + ms"
  let ?f = "\<lambda>t. flapping_timeout (captured_velocity t)"
  let ?ready = "filter (\<lambda>t. due t \<le> ?now) (timeouts (browser s))"
  let ?later = "filter (\<lambda>t. \<not> due t \<le> ?now) (timeouts (browser s))"
  define s0 where "s0 = s\<lparr>browser := (browser s)\<lparr>clock := ?now, timeouts := ?later\<rparr>\<rparr>"
  have run: "advance_clock ms (updateFlapping v s) = flapping_timeout v (fold ?f ?ready s0)"
    using assms
    by (simp add: advance_clock_def run_due_timeouts_def updateFlapping_below setTimeout_def
        Let_def s0_def)
  have c: "config (fold ?f ?ready s0) = config s"
    using fold_flapping_timeout_frame [of ?ready s0] by (simp add: s0_def)
  have b: "browser (fold ?f ?ready s0) = browser s0"
    using fold_flapping_timeout_frame [of ?ready s0] by simp
  show "\<not> isFlapping (animationState (advance_clock ms (updateFlapping v s)))"
    and "flapIntensity (animationState (advance_clock ms (updateFlapping v s))) = 1"
    unfolding run using assms(1) c by (simp_all add: flapping_timeout_def)
  show "?ours \<notin> set (timeouts (browser (advance_clock ms (updateFlapping v s))))"
    unfolding run flapping_timeout_frame b using assms(2) by (simp add: s0_def)
qed

lemma early_check_waits:
  assumes "v \<le> flappingThreshold (config s)" and "ms < 150"
  shows "\<lparr>due = clock (browser s) + 150, captured_velocity = v\<rparr>
           \<in> set (timeouts (browser (advance_clock ms (updateFlapping v s))))"
    and "timeouts (browser s) = [] \<Longrightarrow>
           animationState (advance_clock ms (updateFlapping v s)) = animationState s"
proof -
  let ?ours = "\<lparr>due = clock (browser s) + 150, captured_velocity = v\<rparr>"
  let ?now = "clock (browser s) + ms"
  let ?f = "\<lambda>t. flapping_timeout (captured_velocity t)"
  let ?ready = "filter (\<lambda>t. due t \<le> ?now) (timeouts (browser s))"
  let ?later = "filter (\<lambda>t. \<not> due t \<le> ?now) (timeouts (browser s))"
  define s0 where "s0 = s\<lparr>browser := (browser s)\<lparr>clock := ?now, timeouts := ?later @ [?ours]\<rparr>\<rparr>"
  have run: "advance_clock ms (updateFlapping v s) = fold ?f ?ready s0"
    using assms
    by (simp add: advance_clock_def run_due_timeouts_def updateFlapping_below setTimeout_def
        Let_def s0_def)
  have b: "browser (fold ?f ?ready s0) = browser s0"
    using fold_flapping_timeout_frame [of ?ready s0] by simp
  show "?ours \<in> set (timeouts (browser (advance_clock ms (updateFlapping v s))))"
    unfolding run b by (simp add: s0_def)
  show "animationState (advance_clock ms (updateFlapping v s)) = animationState s"
    if "timeouts (browser s) = []"
    unfolding run using that by (simp add: s0_def)
qed

text \<open>
  Claim C5. For every velocity magnitude at or below \<^verbatim>\<open>flappingThreshold\<close>, a call of
  \<^verbatim>\<open>updateFlapping\<close>
  \<^item> leaves the animation state as it is, so it never clears \<^verbatim>\<open>isFlapping\<close> itself;
  \<^item> adds to the pending timeouts, none of which it drops, one that is due 150 ms later
    and holds the magnitude of this call;
  \<^item> that timeout is still pending while less than 150 ms have passed (and with no older
    timeout pending the animation state is still unchanged then), and once 150 ms have
    passed it has run: \<^verbatim>\<open>isFlapping\<close> is false and \<^verbatim>\<open>flapIntensity\<close> is 1;
  \<^item> when it runs, in whatever later state, it compares the magnitude it holds, not
    the velocity of that state, with the threshold: at or below it clears, above it does
    nothing;
  \<^item> no later call cancels a pending timeout: \<^verbatim>\<open>updateFlapping\<close> and the physics step
    only add to the pending ones, and \<^verbatim>\<open>destroy\<close> leaves them.
\<close>

theorem flap_off_is_delayed:
  assumes "v \<le> flappingThreshold (config s)"
  shows "animationState (updateFlapping v s) = animationState s
       \<and> timeouts (browser (updateFlapping v s)) =
           timeouts (browser s) @ [\<lparr>due = clock (browser s) + 150, captured_velocity = v\<rparr>]
       \<and> (\<forall>ms < 150. \<lparr>due = clock (browser s) + 150, captured_velocity = v\<rparr>
              \<in> set (timeouts (browser (advance_clock ms (updateFlapping v s))))
            \<and> (timeouts (browser s) = [] \<longrightarrow>
                 animationState (advance_clock ms (updateFlapping v s)) = animationState s))
       \<and> (\<forall>ms \<ge> 150. \<not> isFlapping (animationState (advance_clock ms (updateFlapping v s)))
            \<and> flapIntensity (animationState (advance_clock ms (updateFlapping v s))) = 1)
       \<and> (\<forall>later. (v \<le> flappingThreshold (config later) \<longrightarrow>
              flapping_timeout v later =
                later\<lparr>animationState := (animationState later)
                         \<lparr>isFlapping := False, flapIntensity := 1\<rparr>\<rparr>)
            \<and> (\<not> v \<le> flappingThreshold (config later) \<longrightarrow> flapping_timeout v later = later))
       \<and> (\<forall>later v'. \<exists>ts. timeouts (browser (updateFlapping v' later))
                              = timeouts (browser later) @ ts)
       \<and> (\<forall>later later'. updatePhysics later = Some later' \<longrightarrow>
              (\<exists>ts. timeouts (browser later') = timeouts (browser later) @ ts))
       \<and> (\<forall>later. timeouts (browser (destroy later)) = timeouts (browser later))"
proof -
  have fired: "\<not> isFlapping (animationState (advance_clock ms (updateFlapping v s)))
       \<and> flapIntensity (animationState (advance_clock ms (updateFlapping v s))) = 1"
    if "150 \<le> ms" for ms
    using due_check_fires(1,2) [OF assms that] by simp
  have d: "timeouts (browser (destroy later)) = timeouts (browser later)" for later
    by (simp add: destroy_def console_call_def cancelAnimationFrame_def Let_def split: option.splits)
  from assms show ?thesis
    using early_check_waits [OF assms] fired updateFlapping_keeps_timeouts
      updatePhysics_keeps_timeouts d
    by (simp add: updateFlapping_below setTimeout_def flapping_timeout_def)
qed

text \<open>
  The theorem at a flapping bird and the magnitude 1, below the threshold 1.5: the bird
  still flaps after the call and 149 ms later, and no longer 150 ms later.
\<close>

theorem flap_off_is_delayed_witness:
  "(1::real) \<le> flappingThreshold (config flapping_state)
   \<and> isFlapping (animationState flapping_state)
   \<and> isFlapping (animationState (updateFlapping 1 flapping_state))
   \<and> timeouts (browser (updateFlapping 1 flapping_state)) = [\<lparr>due = 150, captured_velocity = 1\<rparr>]
   \<and> isFlapping (animationState (advance_clock 149 (updateFlapping 1 flapping_state)))
   \<and> \<not> isFlapping (animationState (advance_clock 150 (updateFlapping 1 flapping_state)))"
proof -
  have a: "(1::real) \<le> flappingThreshold (config flapping_state)"
    and b: "isFlapping (animationState flapping_state)"
    and c: "timeouts (browser flapping_state) = []" "clock (browser flapping_state) = 0"
    by (simp_all add: flapping_state_def new_BirdCursorSystem_def default_config_def Let_def
        idle_browser_def)
  from flap_off_is_delayed [OF a] a b c show ?thesis
    by simp
qed

subsection \<open>Convergence of the position\<close>













end
